theory Spec2Isabelle
  imports Complex_Main "HOL-Library.Char_ord" "HOL-Library.List_Lexorder" "HOL-Library.Sublist"
begin

chapter \<open>Financial instruments viewer: ingestion, normalisation and filtering\<close>

text \<open>
  A shallow embedding of \<^verbatim>\<open>upstox_financial_instruments_viewer.py\<close>: the parser
  \<^verbatim>\<open>load_json_file\<close>, the two display coercions \<^verbatim>\<open>convert_timestamp\<close> and
  \<^verbatim>\<open>format_currency\<close>, and the part of \<^verbatim>\<open>main\<close> that narrows the data frame
  through the sidebar controls and hands the result to the table and the CSV download.

  Conventions.
  \<^item> A Python \<^verbatim>\<open>str\<close> is a \<open>string\<close> holding its UTF-8 bytes; byte-wise order is
    code-point order, so \<^verbatim>\<open>sorted\<close> is \<open>sort\<close>. Only the ASCII white space
    characters count as white space.
  \<^item> A finite Python \<^verbatim>\<open>float\<close> is the real number it denotes, a Python
    \<^verbatim>\<open>int\<close> is an \<open>int\<close>. Non-finite floats occur only as results of
    \<^verbatim>\<open>float(str)\<close>; data frame cells hold finite numbers.
  \<^item> What the program leaves to CPython, pandas and the host (parsing JSON, parsing a
    number out of a string, printing a float, the regular expression engine, the local
    calendar) is a field of the record \<open>runtime\<close>, the first argument of every
    function that depends on it.
  \<^item> An exception is a value: \<open>None\<close>, or the left summand of a sum type.
\<close>

section \<open>Values\<close>

text \<open>The scalar values a cell or a function argument can hold. \<open>VNone\<close> is Python's
  \<^verbatim>\<open>None\<close>, \<open>VNaN\<close> the float \<^verbatim>\<open>nan\<close> pandas stores for a missing entry.\<close>

datatype val = VNone | VNaN | VBool bool | VInt int | VFloat real | VStr string

text \<open>The result of \<^verbatim>\<open>float(s)\<close>, which may be a non-finite float or minus zero.\<close>

datatype pyfloat = Finite real | NegZero | PosInf | NegInf | NaN

datatype json =
    JNull | JBool bool | JInt int | JFloat real | JStr string
  | JArr "json list" | JObj "(string \<times> json) list"

text \<open>The outcome of a call to \<^verbatim>\<open>json.loads\<close>: a value, a \<^verbatim>\<open>JSONDecodeError\<close>, or
  any other exception (a \<^verbatim>\<open>UnicodeDecodeError\<close>, a \<^verbatim>\<open>RecursionError\<close>).\<close>

datatype 'a attempt = Returned 'a | JSONDecodeError | OtherException

record runtime =
  json_loads_bytes :: "string \<Rightarrow> json attempt"
  json_loads :: "string \<Rightarrow> json attempt"
  py_float :: "string \<Rightarrow> pyfloat option"
  strftime_local :: "real \<Rightarrow> string option"
  float_str :: "real \<Rightarrow> string"
  to_numeric_str :: "string \<Rightarrow> real option"
  re_compile :: "string \<Rightarrow> (string \<Rightarrow> bool) option"

text \<open>
  \<^descr>[\<open>json_loads_bytes\<close>] \<^verbatim>\<open>json.loads\<close> on the bytes of the upload.
  \<^descr>[\<open>json_loads\<close>] \<^verbatim>\<open>json.loads\<close> on one line of text.
  \<^descr>[\<open>py_float\<close>] \<^verbatim>\<open>float(s)\<close>; \<open>None\<close> is the \<^verbatim>\<open>ValueError\<close>.
  \<^descr>[\<open>strftime_local\<close>] \<^verbatim>\<open>datetime.fromtimestamp(t).strftime("%Y-%m-%d %H:%M:%S")\<close>
    for the exact quotient \<open>t\<close> (rounding to a double is part of it); \<open>None\<close> when
    \<^verbatim>\<open>fromtimestamp\<close> raises.
  \<^descr>[\<open>float_str\<close>] \<^verbatim>\<open>str(x)\<close> of a finite float.
  \<^descr>[\<open>to_numeric_str\<close>] the number \<^verbatim>\<open>pd.to_numeric(errors='coerce')\<close> reads from a
    string; \<open>None\<close> where it coerces to \<^verbatim>\<open>NaN\<close>.
  \<^descr>[\<open>re_compile\<close>] \<^verbatim>\<open>re.compile(pat, re.IGNORECASE)\<close> followed by \<^verbatim>\<open>search\<close>;
    \<open>None\<close> is \<^verbatim>\<open>re.error\<close>. Consulted only where the outcome is not plain
    substring search (see \<open>str_contains\<close>).
\<close>

section \<open>Strings\<close>

definition isspace :: "char \<Rightarrow> bool" where
  "isspace c = (let n = (of_char c :: nat) in (9 \<le> n \<and> n \<le> 13) \<or> (28 \<le> n \<and> n \<le> 32))"

definition strip :: "string \<Rightarrow> string" where
  "strip s = rev (dropWhile isspace (rev (dropWhile isspace s)))"


definition is_ascii :: "string \<Rightarrow> bool" where
  "is_ascii s = list_all (\<lambda>c. (of_char c :: nat) < 128) s"

definition lower_char :: "char \<Rightarrow> char" where
  "lower_char c =
     (case map_of (zip ''ABCDEFGHIJKLMNOPQRSTUVWXYZ'' ''abcdefghijklmnopqrstuvwxyz'') c of
        Some l \<Rightarrow> l
      | None \<Rightarrow> c)"

definition lower :: "string \<Rightarrow> string" where
  "lower s = map lower_char s"

fun contains :: "string \<Rightarrow> string \<Rightarrow> bool" where
  "contains p [] = (p = [])"
| "contains p (c # cs) = (prefix p (c # cs) \<or> contains p cs)"

text \<open>Letters, digits and the space: characters that stand for themselves in a regular
  expression.\<close>

definition plain_char :: "char \<Rightarrow> bool" where
  "plain_char c = (let n = (of_char c :: nat) in
     (48 \<le> n \<and> n \<le> 57) \<or> (65 \<le> n \<and> n \<le> 90) \<or> (97 \<le> n \<and> n \<le> 122) \<or> n = 32)"

definition plain_pattern :: "string \<Rightarrow> bool" where
  "plain_pattern p = list_all plain_char p"

text \<open>
  \<^verbatim>\<open>Series.str.contains(pat, case=False, na=False)\<close> on a column of strings: \<^verbatim>\<open>regex\<close>
  defaults to \<^verbatim>\<open>True\<close>, so \<open>pat\<close> is compiled as a regular expression, once, before any
  row is looked at. For a pattern of plain characters and an ASCII subject the search is
  case-insensitive substring search; everything else is the engine's answer.
\<close>

definition str_contains :: "runtime \<Rightarrow> string \<Rightarrow> (string \<Rightarrow> bool) option" where
  "str_contains L pat =
     (if plain_pattern pat
      then Some (\<lambda>s. if is_ascii s then contains (lower pat) (lower s)
                      else (case re_compile L pat of Some m \<Rightarrow> m s | None \<Rightarrow> False))
      else re_compile L pat)"

section \<open>Printing numbers\<close>

definition digit_char :: "nat \<Rightarrow> char" where
  "digit_char d = ''0123456789'' ! d"

fun decimal :: "nat \<Rightarrow> string" where
  "decimal n = (if 10 \<le> n then decimal (n div 10) @ [digit_char (n mod 10)] else [digit_char n])"

declare decimal.simps [simp del]

definition str_int :: "int \<Rightarrow> string" where
  "str_int i = (if i < 0 then ''-'' @ decimal (nat (- i)) else decimal (nat i))"

definition pad2 :: "nat \<Rightarrow> string" where
  "pad2 n = [digit_char (n div 10 mod 10), digit_char (n mod 10)]"

definition pad3 :: "nat \<Rightarrow> string" where
  "pad3 n = [digit_char (n div 100 mod 10), digit_char (n div 10 mod 10), digit_char (n mod 10)]"

text \<open>The \<^verbatim>\<open>,\<close> option of the format mini-language: a comma before every group of three
  digits, counted from the right.\<close>

fun commas :: "nat \<Rightarrow> string" where
  "commas n = (if n < 1000 then decimal n else commas (n div 1000) @ '','' @ pad3 (n mod 1000))"

declare commas.simps [simp del]

text \<open>Rounding to the nearest integer, ties to the even one: what \<^verbatim>\<open>.2f\<close> does with
  the exact value of the float.\<close>

definition round_half_even :: "real \<Rightarrow> int" where
  "round_half_even x =
     (let f = \<lfloor>x\<rfloor>; d = x - of_int f
      in if d < 1/2 then f else if 1/2 < d then f + 1 else if even f then f else f + 1)"

text \<open>\<^verbatim>\<open>format(x, ',.2f')\<close> for a float \<open>x\<close>.\<close>

definition format_comma_2f :: "pyfloat \<Rightarrow> string" where
  "format_comma_2f x =
     (case x of
        Finite r \<Rightarrow>
          (let c = nat (round_half_even (\<bar>r\<bar> * 100))
           in (if r < 0 then ''-'' else []) @ commas (c div 100) @ ''.'' @ pad2 (c mod 100))
      | NegZero \<Rightarrow> ''-0.00''
      | PosInf \<Rightarrow> ''inf''
      | NegInf \<Rightarrow> ''-inf''
      | NaN \<Rightarrow> ''nan'')"

text \<open>Reading a printed number back: the digits, the number a string of digits writes,
  the groups between the commas, and what \<^emph>\<open>thousands separators\<close> asks of them (one to
  three digits in the first group, three in every other).\<close>

definition is_digit :: "char \<Rightarrow> bool" where
  "is_digit c = (c \<in> set ''0123456789'')"

definition digit_value :: "char \<Rightarrow> nat" where
  "digit_value c = (of_char c :: nat) - 48"

fun digits_value :: "string \<Rightarrow> nat" where
  "digits_value [] = 0"
| "digits_value (c # cs) = digit_value c * 10 ^ length cs + digits_value cs"

fun split_commas :: "string \<Rightarrow> string list" where
  "split_commas [] = [[]]"
| "split_commas (c # cs) =
     (if c = CHR '','' then [] # split_commas cs
      else (case split_commas cs of [] \<Rightarrow> [[c]] | g # gs \<Rightarrow> (c # g) # gs))"

definition grouped :: "string \<Rightarrow> bool" where
  "grouped s =
     (case split_commas s of
        [] \<Rightarrow> False
      | g # gs \<Rightarrow>
          1 \<le> length g \<and> length g \<le> 3 \<and> list_all is_digit g \<and>
          list_all (\<lambda>h. length h = 3 \<and> list_all is_digit h) gs)"

definition without_commas :: "string \<Rightarrow> string" where
  "without_commas s = filter (\<lambda>c. c \<noteq> CHR '','') s"

fun bit_length :: "nat \<Rightarrow> nat" where
  "bit_length n = (if n = 0 then 0 else Suc (bit_length (n div 2)))"

declare bit_length.simps [simp del]

text \<open>\<^verbatim>\<open>float(n)\<close> for an \<^verbatim>\<open>int\<close>: exact up to 53 bits, beyond that rounded to 53
  significant bits, ties to even; \<open>None\<close> is the \<^verbatim>\<open>OverflowError\<close>.\<close>

definition float_of_int :: "int \<Rightarrow> real option" where
  "float_of_int n =
     (let a = nat \<bar>n\<bar>; e = bit_length a
      in if e \<le> 53 then Some (of_int n)
         else (let sh = e - 53; q = a div 2 ^ sh; r = a mod 2 ^ sh; h = 2 ^ (sh - 1);
                   q' = (if h < r \<or> (r = h \<and> odd q) then q + 1 else q);
                   m = q' * 2 ^ sh
               in if 2 ^ 1024 \<le> m then None
                  else Some (if n < 0 then - of_nat m else of_nat m)))"

section \<open>The display coercions\<close>

definition isna :: "val \<Rightarrow> bool" where
  "isna v = (v = VNone \<or> v = VNaN)"

text \<open>\<^verbatim>\<open>value == 0\<close>: true of the numbers that equal zero and of \<^verbatim>\<open>False\<close>, never of a
  string.\<close>

definition eq_zero :: "val \<Rightarrow> bool" where
  "eq_zero v = (case v of VInt i \<Rightarrow> i = 0 | VFloat r \<Rightarrow> r = 0 | VBool b \<Rightarrow> \<not> b | _ \<Rightarrow> False)"

text \<open>The guard both coercions open with:
  \<^verbatim>\<open>pd.isna(value) or value == '' or value == 0\<close>.\<close>

definition blank_or_zero :: "val \<Rightarrow> bool" where
  "blank_or_zero v = (isna v \<or> v = VStr [] \<or> eq_zero v)"

text \<open>The rupee sign U+20B9.\<close>

definition rupee :: string where
  "rupee = [CHR 0xE2, CHR 0x82, CHR 0xB9]"

text \<open>The float that \<^verbatim>\<open>f"{value:,.2f}"\<close> prints, after \<^verbatim>\<open>value = float(value)\<close> for a
  string; \<open>None\<close> when either step raises. \<^verbatim>\<open>bool\<close> is an \<^verbatim>\<open>int\<close>. (\<open>VNone\<close> and
  \<open>VNaN\<close> never get here.)\<close>

definition currency_number :: "runtime \<Rightarrow> val \<Rightarrow> pyfloat option" where
  "currency_number L v =
     (case v of
        VStr s \<Rightarrow> py_float L s
      | VInt i \<Rightarrow> map_option Finite (float_of_int i)
      | VBool b \<Rightarrow> Some (Finite (if b then 1 else 0))
      | VFloat r \<Rightarrow> Some (Finite r)
      | _ \<Rightarrow> None)"

definition format_currency :: "runtime \<Rightarrow> val \<Rightarrow> string" where
  "format_currency L v =
     (if blank_or_zero v then rupee @ ''0.00''
      else (case currency_number L v of
              None \<Rightarrow> ''N/A''
            | Some x \<Rightarrow> rupee @ format_comma_2f x))"

text \<open>The quotient \<^verbatim>\<open>timestamp / 1000\<close> handed to \<^verbatim>\<open>datetime.fromtimestamp\<close>, after
  \<^verbatim>\<open>timestamp = float(timestamp)\<close> for a string; \<open>None\<close> when the conversion raises or
  the float is not finite (\<^verbatim>\<open>fromtimestamp\<close> raises on \<^verbatim>\<open>nan\<close> and \<^verbatim>\<open>inf\<close>).\<close>

definition timestamp_seconds :: "runtime \<Rightarrow> val \<Rightarrow> real option" where
  "timestamp_seconds L v =
     (case v of
        VStr s \<Rightarrow>
          (case py_float L s of
             Some (Finite r) \<Rightarrow> Some (r / 1000)
           | Some NegZero \<Rightarrow> Some 0
           | _ \<Rightarrow> None)
      | VInt i \<Rightarrow> Some (of_int i / 1000)
      | VBool b \<Rightarrow> Some ((if b then 1 else 0) / 1000)
      | VFloat r \<Rightarrow> Some (r / 1000)
      | _ \<Rightarrow> None)"

definition convert_timestamp :: "runtime \<Rightarrow> val \<Rightarrow> string" where
  "convert_timestamp L v =
     (if blank_or_zero v then ''N/A''
      else (case timestamp_seconds L v of
              None \<Rightarrow> ''Invalid''
            | Some t \<Rightarrow> (case strftime_local L t of None \<Rightarrow> ''Invalid'' | Some s \<Rightarrow> s)))"

section \<open>The parser\<close>

text \<open>Whether a byte string is well-formed UTF-8, that is whether
  \<^verbatim>\<open>content.decode('utf-8')\<close> returns (the text then has these very bytes) instead of
  raising \<^verbatim>\<open>UnicodeDecodeError\<close>.\<close>

definition utf8_cont :: "nat \<Rightarrow> bool" where
  "utf8_cont b = (128 \<le> b \<and> b \<le> 191)"

fun utf8_ok :: "nat list \<Rightarrow> bool" where
  "utf8_ok [] = True"
| "utf8_ok (a # bs) =
     (if a < 128 then utf8_ok bs
      else if 194 \<le> a \<and> a \<le> 223 then
        (case bs of b # r \<Rightarrow> utf8_cont b \<and> utf8_ok r | _ \<Rightarrow> False)
      else if 224 \<le> a \<and> a \<le> 239 then
        (case bs of
           b # c # r \<Rightarrow>
             (if a = 224 then 160 \<le> b \<and> b \<le> 191
              else if a = 237 then 128 \<le> b \<and> b \<le> 159
              else utf8_cont b) \<and> utf8_cont c \<and> utf8_ok r
         | _ \<Rightarrow> False)
      else if 240 \<le> a \<and> a \<le> 244 then
        (case bs of
           b # c # d # r \<Rightarrow>
             (if a = 240 then 144 \<le> b \<and> b \<le> 191
              else if a = 244 then 128 \<le> b \<and> b \<le> 143
              else utf8_cont b) \<and> utf8_cont c \<and> utf8_cont d \<and> utf8_ok r
         | _ \<Rightarrow> False)
      else False)"

definition utf8_valid :: "string \<Rightarrow> bool" where
  "utf8_valid content = utf8_ok (map of_char content)"








section \<open>The data frame\<close>

text \<open>A data frame is its column labels and its rows, in order. A row gives a value to
  some labels; a label it does not mention reads as \<open>VNaN\<close>, the way pandas fills a key
  that a record lacks. Selecting rows keeps the labels.\<close>

type_synonym row = "(string \<times> val) list"

record frame =
  columns :: "string list"
  rows :: "row list"

definition cell :: "row \<Rightarrow> string \<Rightarrow> val" where
  "cell r c = (case map_of r c of Some v \<Rightarrow> v | None \<Rightarrow> VNaN)"

definition column :: "frame \<Rightarrow> string \<Rightarrow> val list" where
  "column df c = map (\<lambda>r. cell r c) (rows df)"

text \<open>\<^verbatim>\<open>df[mask]\<close>.\<close>

definition select_rows :: "(row \<Rightarrow> bool) \<Rightarrow> frame \<Rightarrow> frame" where
  "select_rows keep df = df\<lparr>rows := filter keep (rows df)\<rparr>"

definition dropna :: "val list \<Rightarrow> val list" where
  "dropna vs = filter (\<lambda>v. \<not> isna v) vs"

text \<open>\<^verbatim>\<open>astype(str)\<close> on one cell.\<close>

definition astype_str :: "runtime \<Rightarrow> val \<Rightarrow> string" where
  "astype_str L v =
     (case v of
        VNone \<Rightarrow> ''None''
      | VNaN \<Rightarrow> ''nan''
      | VBool b \<Rightarrow> (if b then ''True'' else ''False'')
      | VInt i \<Rightarrow> str_int i
      | VFloat r \<Rightarrow> float_str L r
      | VStr s \<Rightarrow> s)"

text \<open>\<^verbatim>\<open>pd.to_numeric(errors='coerce')\<close> on one cell; \<open>None\<close> is \<^verbatim>\<open>NaN\<close>.\<close>

definition to_numeric :: "runtime \<Rightarrow> val \<Rightarrow> real option" where
  "to_numeric L v =
     (case v of
        VInt i \<Rightarrow> Some (of_int i)
      | VFloat r \<Rightarrow> Some r
      | VBool b \<Rightarrow> Some (if b then 1 else 0)
      | VStr s \<Rightarrow> to_numeric_str L s
      | _ \<Rightarrow> None)"

section \<open>The sidebar controls\<close>

text \<open>What the widgets return in one run of the script. A select box returns one of its
  options, \<^verbatim>\<open>'All'\<close> until the user picks another; a slider returns its \<^verbatim>\<open>value=\<close>
  until the user moves it (\<open>None\<close> here), then the chosen pair; the radio returns one of
  its three options; the text input returns the text typed.\<close>

datatype weekly_choice = AllOptions | WeeklyOnly | MonthlyOnly

record selection =
  sel_exchange :: string
  sel_type :: string
  sel_segment :: string
  sel_underlying :: string
  sel_lot :: "(int \<times> int) option"
  sel_strike :: "(real \<times> real) option"
  sel_weekly :: weekly_choice
  search_term :: string

subsection \<open>Select boxes (source lines 116 to 157)\<close>

definition category_values :: "runtime \<Rightarrow> string \<Rightarrow> frame \<Rightarrow> string list" where
  "category_values L c df =
     filter (\<lambda>s. strip s \<noteq> []) (map (astype_str L) (dropna (column df c)))"

text \<open>The options of the select box, where one is shown.\<close>

definition category_options :: "runtime \<Rightarrow> string \<Rightarrow> frame \<Rightarrow> string list option" where
  "category_options L c df =
     (if c \<in> set (columns df) \<and> category_values L c df \<noteq> []
      then Some (''All'' # sort (remdups (category_values L c df)))
      else None)"

definition category_filter :: "runtime \<Rightarrow> string \<Rightarrow> string \<Rightarrow> frame \<Rightarrow> frame" where
  "category_filter L c selected df =
     (case category_options L c df of
        None \<Rightarrow> df
      | Some options \<Rightarrow>
          (if selected \<noteq> ''All''
           then select_rows (\<lambda>r. strip (astype_str L (cell r c)) = selected) df
           else df))"

subsection \<open>Range sliders (source lines 160 to 193)\<close>

definition numeric_values :: "runtime \<Rightarrow> string \<Rightarrow> frame \<Rightarrow> real list" where
  "numeric_values L c df = List.map_filter (to_numeric L) (column df c)"

text \<open>\<^verbatim>\<open>int(x)\<close> of a float: truncation towards zero.\<close>

definition py_int :: "real \<Rightarrow> int" where
  "py_int x = (if 0 \<le> x then \<lfloor>x\<rfloor> else \<lceil>x\<rceil>)"

text \<open>The bounds of the lot size slider, where one is shown.\<close>

definition lot_bounds :: "runtime \<Rightarrow> frame \<Rightarrow> (int \<times> int) option" where
  "lot_bounds L df =
     (if ''lot_size'' \<in> set (columns df) then
        (let lot_size_values = numeric_values L ''lot_size'' df
         in if lot_size_values \<noteq> [] \<and> 1 < length (remdups lot_size_values) then
              (let min_lot = py_int (Min (set lot_size_values));
                   max_lot = py_int (Max (set lot_size_values))
               in if min_lot \<noteq> max_lot then Some (min_lot, max_lot) else None)
            else None)
      else None)"

definition in_range :: "runtime \<Rightarrow> string \<Rightarrow> real \<Rightarrow> real \<Rightarrow> row \<Rightarrow> bool" where
  "in_range L c lo hi r =
     (case to_numeric L (cell r c) of None \<Rightarrow> False | Some x \<Rightarrow> lo \<le> x \<and> x \<le> hi)"

definition lot_filter :: "runtime \<Rightarrow> (int \<times> int) option \<Rightarrow> frame \<Rightarrow> frame" where
  "lot_filter L moved df =
     (case lot_bounds L df of
        None \<Rightarrow> df
      | Some (min_lot, max_lot) \<Rightarrow>
          (let lot_range = (case moved of None \<Rightarrow> (min_lot, max_lot) | Some chosen \<Rightarrow> chosen)
           in select_rows
                (in_range L ''lot_size'' (of_int (fst lot_range)) (of_int (snd lot_range))) df))"

definition strike_bounds :: "runtime \<Rightarrow> frame \<Rightarrow> (real \<times> real) option" where
  "strike_bounds L df =
     (if ''strike_price'' \<in> set (columns df) then
        (let strike_price_values = numeric_values L ''strike_price'' df
         in if strike_price_values \<noteq> [] \<and> 1 < length (remdups strike_price_values) then
              (let min_strike = Min (set strike_price_values);
                   max_strike = Max (set strike_price_values)
               in if min_strike \<noteq> max_strike then Some (min_strike, max_strike) else None)
            else None)
      else None)"

definition strike_filter :: "runtime \<Rightarrow> (real \<times> real) option \<Rightarrow> frame \<Rightarrow> frame" where
  "strike_filter L moved df =
     (case strike_bounds L df of
        None \<Rightarrow> df
      | Some (min_strike, max_strike) \<Rightarrow>
          (let strike_range =
                 (case moved of None \<Rightarrow> (min_strike, max_strike) | Some chosen \<Rightarrow> chosen)
           in select_rows (in_range L ''strike_price'' (fst strike_range) (snd strike_range)) df))"

subsection \<open>The weekly radio (source lines 196 to 204)\<close>

definition weekly_offered :: "frame \<Rightarrow> bool" where
  "weekly_offered df = (''weekly'' \<in> set (columns df) \<and> dropna (column df ''weekly'') \<noteq> [])"

text \<open>\<^verbatim>\<open>cell == True\<close> and \<^verbatim>\<open>cell == False\<close>, element by element: Python's equality, for
  which \<^verbatim>\<open>1 == True\<close> and \<^verbatim>\<open>0 == False\<close>.\<close>

definition eq_bool :: "val \<Rightarrow> bool \<Rightarrow> bool" where
  "eq_bool v b =
     (case v of
        VBool a \<Rightarrow> a = b
      | VInt i \<Rightarrow> i = (if b then 1 else 0)
      | VFloat x \<Rightarrow> x = (if b then 1 else 0)
      | _ \<Rightarrow> False)"

definition weekly_filter :: "weekly_choice \<Rightarrow> frame \<Rightarrow> frame" where
  "weekly_filter choice df =
     (if weekly_offered df then
        (case choice of
           WeeklyOnly \<Rightarrow> select_rows (\<lambda>r. eq_bool (cell r ''weekly'') True) df
         | MonthlyOnly \<Rightarrow> select_rows (\<lambda>r. eq_bool (cell r ''weekly'') False) df
         | AllOptions \<Rightarrow> df)
      else df)"

subsection \<open>The search box (source lines 207 to 210)\<close>

datatype error = RegexError

definition search_filter :: "runtime \<Rightarrow> string \<Rightarrow> frame \<Rightarrow> error + frame" where
  "search_filter L term df =
     (if term \<noteq> [] \<and> ''trading_symbol'' \<in> set (columns df) then
        (case str_contains L term of
           None \<Rightarrow> Inl RegexError
         | Some found \<Rightarrow> Inr (select_rows (\<lambda>r. found (astype_str L (cell r ''trading_symbol''))) df))
      else Inr df)"

subsection \<open>The whole sidebar\<close>

text \<open>Source lines 112 to 210: every block reads the frame the blocks before it left and
  assigns its own result to the same variable.\<close>

definition main_filters :: "runtime \<Rightarrow> selection \<Rightarrow> frame \<Rightarrow> error + frame" where
  "main_filters L sel df0 =
     (let df1 = category_filter L ''exchange'' (sel_exchange sel) df0;
          df2 = category_filter L ''instrument_type'' (sel_type sel) df1;
          df3 = category_filter L ''segment'' (sel_segment sel) df2;
          df4 = category_filter L ''underlying_type'' (sel_underlying sel) df3;
          df5 = lot_filter L (sel_lot sel) df4;
          df6 = strike_filter L (sel_strike sel) df5;
          df7 = weekly_filter (sel_weekly sel) df6
      in search_filter L (search_term sel) df7)"



text \<open>The same blocks as steps that can be run in any order.\<close>

datatype stage =
  Exchange | InstrumentType | Segment | UnderlyingType | LotSize | StrikePrice | Weekly | Search

fun apply_stage :: "runtime \<Rightarrow> selection \<Rightarrow> stage \<Rightarrow> frame \<Rightarrow> error + frame" where
  "apply_stage L sel Exchange df = Inr (category_filter L ''exchange'' (sel_exchange sel) df)"
| "apply_stage L sel InstrumentType df =
     Inr (category_filter L ''instrument_type'' (sel_type sel) df)"
| "apply_stage L sel Segment df = Inr (category_filter L ''segment'' (sel_segment sel) df)"
| "apply_stage L sel UnderlyingType df =
     Inr (category_filter L ''underlying_type'' (sel_underlying sel) df)"
| "apply_stage L sel LotSize df = Inr (lot_filter L (sel_lot sel) df)"
| "apply_stage L sel StrikePrice df = Inr (strike_filter L (sel_strike sel) df)"
| "apply_stage L sel Weekly df = Inr (weekly_filter (sel_weekly sel) df)"
| "apply_stage L sel Search df = search_filter L (search_term sel) df"

fun run_stages :: "runtime \<Rightarrow> selection \<Rightarrow> stage list \<Rightarrow> frame \<Rightarrow> error + frame" where
  "run_stages L sel [] df = Inr df"
| "run_stages L sel (s # ss) df =
     (case apply_stage L sel s df of Inl e \<Rightarrow> Inl e | Inr df' \<Rightarrow> run_stages L sel ss df')"

definition sidebar_order :: "stage list" where
  "sidebar_order =
     [Exchange, InstrumentType, Segment, UnderlyingType, LotSize, StrikePrice, Weekly, Search]"

section \<open>Table and download\<close>

text \<open>\<^verbatim>\<open>df[c] = ...\<close> on a copy: a new column, or new values in the column of that
  label.\<close>

definition assign :: "string \<Rightarrow> (row \<Rightarrow> val) \<Rightarrow> frame \<Rightarrow> frame" where
  "assign c f df =
     \<lparr>columns = (if c \<in> set (columns df) then columns df else columns df @ [c]),
      rows = map (\<lambda>r. (c, f r) # r) (rows df)\<rparr>"

definition available_columns :: "string list" where
  "available_columns =
     [''instrument_key'', ''name'', ''trading_symbol'', ''instrument_type'', ''exchange'',
      ''segment'', ''underlying_symbol'', ''underlying_type'', ''expiry_date'',
      ''strike_price_formatted'', ''lot_size'', ''minimum_lot'', ''tick_size'',
      ''exchange_token'', ''weekly'']"

definition display_df :: "runtime \<Rightarrow> frame \<Rightarrow> frame" where
  "display_df L df =
     (let d = df;
          d = (if ''expiry'' \<in> set (columns d)
               then assign ''expiry_date'' (\<lambda>r. VStr (convert_timestamp L (cell r ''expiry''))) d
               else d);
          d = (if ''strike_price'' \<in> set (columns d)
               then assign ''strike_price_formatted''
                      (\<lambda>r. VStr (format_currency L (cell r ''strike_price''))) d
               else d)
      in d)"

text \<open>What \<open>display_df\<close> makes of one row of a frame with the labels \<open>cols\<close>.\<close>

definition display_row :: "runtime \<Rightarrow> string list \<Rightarrow> row \<Rightarrow> row" where
  "display_row L cols r =
     (let r = (if ''expiry'' \<in> set cols
               then (''expiry_date'', VStr (convert_timestamp L (cell r ''expiry''))) # r
               else r);
          r = (if ''strike_price'' \<in> set cols
               then (''strike_price_formatted'',
                     VStr (format_currency L (cell r ''strike_price''))) # r
               else r)
      in r)"

definition display_columns :: "frame \<Rightarrow> string list" where
  "display_columns d = filter (\<lambda>col. col \<in> set (columns d)) available_columns"

text \<open>The cells \<^verbatim>\<open>st.dataframe\<close> is given, row by row.\<close>

definition table :: "runtime \<Rightarrow> frame \<Rightarrow> val list list" where
  "table L df =
     (let d = display_df L df in map (\<lambda>r. map (cell r) (display_columns d)) (rows d))"

text \<open>The cells \<^verbatim>\<open>df.to_csv(index=False)\<close> writes: the header, then one record per row.\<close>

definition to_csv :: "frame \<Rightarrow> string list \<times> val list list" where
  "to_csv df = (columns df, map (\<lambda>r. map (cell r) (columns df)) (rows df))"

text \<open>Source lines 215 to 253: table and download exist when a row is left.\<close>

definition main_results :: "runtime \<Rightarrow> frame \<Rightarrow> (val list list \<times> (string list \<times> val list list)) option" where
  "main_results L df = (if 0 < length (rows df) then Some (table L df, to_csv df) else None)"

section \<open>A runtime and data for the examples\<close>

text \<open>
  The examples below need a concrete \<open>runtime\<close>. This one gives the answers of CPython
  and pandas, in a process whose local time is UTC, on the inputs listed in its tables;
  off the tables it answers with a failure. The examples stay on the tables, or on inputs
  where the failure is the true answer (\<^verbatim>\<open>float('abc')\<close>, \<^verbatim>\<open>json.loads('oops')\<close>,
  \<^verbatim>\<open>re.compile('(')\<close>, bytes that are not UTF-8). No general statement depends on it.
\<close>

definition dq :: char where
  "dq = CHR 0x22"

definition sample_documents :: "(string \<times> json) list" where
  "sample_documents =
     [(''{}'', JObj []),
      (''[]'', JArr []),
      (''7'', JInt 7),
      (''{'' @ [dq] @ ''exchange'' @ [dq] @ '': '' @ [dq] @ ''NSE'' @ [dq] @ ''}'',
         JObj [(''exchange'', JStr ''NSE'')]),
      (''{'' @ [dq] @ ''lot_size'' @ [dq] @ '': 50}'', JObj [(''lot_size'', JInt 50)]),
      (''[{'' @ [dq] @ ''lot_size'' @ [dq] @ '': 50}, {}]'',
         JArr [JObj [(''lot_size'', JInt 50)], JObj []])]"

definition sample_loads :: "string \<Rightarrow> json attempt" where
  "sample_loads s =
     (case map_of sample_documents s of Some j \<Rightarrow> Returned j | None \<Rightarrow> JSONDecodeError)"

definition sample_runtime :: runtime where
  "sample_runtime =
     \<lparr>json_loads_bytes = (\<lambda>b. if utf8_valid b then sample_loads b else OtherException),
      json_loads = sample_loads,
      py_float = map_of
        [(''1234.5'', Finite 1234.5), (''50'', Finite 50),
         (''2111423399000'', Finite 2111423399000), (''inf'', PosInf)],
      strftime_local = map_of
        [(2111423399, ''2036-11-27 18:29:59''), (1 / 1000, ''1970-01-01 00:00:00'')],
      float_str = (\<lambda>x. case map_of [(1.5, ''1.5''), (3.5, ''3.5''), (50, ''50.0''), (75, ''75.0'')] x of
                        Some s \<Rightarrow> s | None \<Rightarrow> ''?''),
      to_numeric_str = map_of [(''50'', 50), (''75'', 75)],
      re_compile = (\<lambda>pat. if pat = ''.'' then Some (list_ex (\<lambda>c. c \<noteq> CHR 0x0A)) else None)\<rparr>"




text \<open>The selection of a run in which the user has touched nothing.\<close>

definition untouched :: selection where
  "untouched =
     \<lparr>sel_exchange = ''All'', sel_type = ''All'', sel_segment = ''All'',
      sel_underlying = ''All'', sel_lot = None, sel_strike = None,
      sel_weekly = AllOptions, search_term = []\<rparr>"

definition nifty_fut :: row where
  "nifty_fut =
     [(''exchange'', VStr ''NSE''), (''instrument_type'', VStr ''FUT''),
      (''lot_size'', VFloat 50), (''weekly'', VBool False),
      (''trading_symbol'', VStr ''NIFTY FUT 27 NOV 36'')]"

definition sensex_ce :: row where
  "sensex_ce =
     [(''exchange'', VStr ''BSE''), (''instrument_type'', VStr ''CE''),
      (''lot_size'', VFloat 75), (''weekly'', VBool True),
      (''trading_symbol'', VStr ''SENSEX 81000 CE'')]"

definition banknifty_fut :: row where
  "banknifty_fut =
     [(''exchange'', VStr ''NSE''), (''instrument_type'', VStr ''FUT''),
      (''weekly'', VBool True), (''trading_symbol'', VStr ''BANKNIFTY FUT 27 NOV 36'')]"

definition instruments :: frame where
  "instruments =
     \<lparr>columns = [''exchange'', ''instrument_type'', ''lot_size'', ''weekly'', ''trading_symbol''],
      rows = [nifty_fut, sensex_ce, banknifty_fut]\<rparr>"

text \<open>A frame whose lot sizes are not whole numbers, as the upload
  \<^verbatim>\<open>[{"lot_size": 1.5}, {"lot_size": 3.5}]\<close> gives.\<close>

definition small_lot :: row where
  "small_lot = [(''lot_size'', VFloat 1.5)]"

definition large_lot :: row where
  "large_lot = [(''lot_size'', VFloat 3.5)]"

definition fractional_lots :: frame where
  "fractional_lots = \<lparr>columns = [''lot_size''], rows = [small_lot, large_lot]\<rparr>"

text \<open>A frame whose weekly flags are numbers, as the upload
  \<^verbatim>\<open>[{"weekly": 1}, {"weekly": 0}]\<close> gives.\<close>

definition flag_one :: row where
  "flag_one = [(''weekly'', VInt 1)]"

definition flag_zero :: row where
  "flag_zero = [(''weekly'', VInt 0)]"

definition numeric_flags :: frame where
  "numeric_flags = \<lparr>columns = [''weekly''], rows = [flag_one, flag_zero]\<rparr>"

text \<open>A frame in which no record has a trading symbol, and one in which one record has
  none.\<close>

definition unnamed :: frame where
  "unnamed = \<lparr>columns = [''name''], rows = [[(''name'', VStr ''x'')]]\<rparr>"

definition half_named :: frame where
  "half_named =
     \<lparr>columns = [''name'', ''trading_symbol''],
      rows = [[(''name'', VStr ''x'')],
              [(''name'', VStr ''y''), (''trading_symbol'', VStr ''ABC'')]]\<rparr>"

definition nifty_only :: frame where
  "nifty_only = \<lparr>columns = [''trading_symbol''], rows = [[(''trading_symbol'', VStr ''NIFTY'')]]\<rparr>"

section \<open>Printed numbers\<close>

lemma below_ten: "d < 10 \<Longrightarrow> d \<in> {0, 1, 2, 3, 4, 5, 6, 7, 8, 9::nat}"
  by auto

lemma digit_char_props:
  assumes "d < 10"
  shows "is_digit (digit_char d)" and "digit_value (digit_char d) = d"
    and "digit_char d \<noteq> CHR '',''"
  using below_ten [OF assms]
  by (auto simp: is_digit_def digit_value_def digit_char_def)

lemma digits_value_append:
  "digits_value (xs @ ys) = digits_value xs * 10 ^ length ys + digits_value ys"
  by (induction xs) (simp_all add: power_add algebra_simps)

lemma decimal_props:
  "list_all is_digit (decimal n) \<and> digits_value (decimal n) = n \<and> decimal n \<noteq> [] \<and>
   CHR '','' \<notin> set (decimal n)"
proof (induction n rule: decimal.induct)
  case (1 n)
  show ?case
  proof (cases "n < 10")
    case True
    then show ?thesis
      using digit_char_props [of n] by (subst (1 2 3 4) decimal.simps) simp
  next
    case False
    have m: "n mod 10 < 10" by simp
    from False 1 have ih: "list_all is_digit (decimal (n div 10)) \<and>
      digits_value (decimal (n div 10)) = n div 10 \<and> decimal (n div 10) \<noteq> [] \<and>
      CHR '','' \<notin> set (decimal (n div 10))"
      by simp
    with False digit_char_props [OF m] show ?thesis
      by (subst (1 2 3 4) decimal.simps) (simp add: digits_value_append)
  qed
qed

lemma decimal_length: "n < 1000 \<Longrightarrow> length (decimal n) \<le> 3"
proof -
  assume n: "n < 1000"
  have a: "length (decimal k) = 1" if "k < 10" for k
    using that by (subst decimal.simps) simp
  have b: "length (decimal k) \<le> 2" if "k < 100" for k
  proof (cases "k < 10")
    case True
    then show ?thesis by (simp add: a)
  next
    case False
    with that have "k div 10 < 10" by simp
    with False show ?thesis by (subst decimal.simps) (simp add: a)
  qed
  show ?thesis
  proof (cases "n < 10")
    case True
    then show ?thesis by (simp add: a)
  next
    case False
    with n have "n div 10 < 100" by simp
    from b [OF this] False show ?thesis by (subst decimal.simps) simp
  qed
qed

lemma two_digits: "n < 100 \<Longrightarrow> n div 10 mod 10 * 10 + n mod 10 = (n::nat)"
proof -
  assume "n < 100"
  then have "n div 10 < 10" by simp
  then have "n div 10 mod 10 = n div 10" by simp
  then show ?thesis by simp
qed

lemma three_digits:
  "n < 1000 \<Longrightarrow> n div 100 mod 10 * 100 + n div 10 mod 10 * 10 + n mod 10 = (n::nat)"
proof -
  assume "n < 1000"
  have d: "n div 100 = n div 10 div 10" by (simp add: div_mult2_eq)
  from \<open>n < 1000\<close> have "n div 10 div 10 < 10" by simp
  then have a: "n div 10 div 10 mod 10 = n div 10 div 10" by simp
  have b: "n div 10 div 10 * 10 + n div 10 mod 10 = n div 10" by simp
  have c: "n div 10 * 10 + n mod 10 = n" by simp
  have "n div 100 mod 10 * 100 + n div 10 mod 10 * 10 + n mod 10 =
        (n div 10 div 10 * 10 + n div 10 mod 10) * 10 + n mod 10"
    unfolding d a by (simp only: algebra_simps)
  also have "\<dots> = n" by (simp only: b c)
  finally show ?thesis .
qed

lemma pad3_props:
  "length (pad3 n) = 3 \<and> list_all is_digit (pad3 n) \<and> CHR '','' \<notin> set (pad3 n) \<and>
   (n < 1000 \<longrightarrow> digits_value (pad3 n) = n)"
proof -
  have a: "n div 100 mod 10 < 10" "n div 10 mod 10 < 10" "n mod 10 < 10" by simp_all
  have v: "digits_value (pad3 n) =
      n div 100 mod 10 * 100 + n div 10 mod 10 * 10 + n mod 10"
    using digit_char_props(2) [OF a(1)] digit_char_props(2) [OF a(2)]
      digit_char_props(2) [OF a(3)]
    by (simp add: pad3_def)
  have s: "length (pad3 n) = 3 \<and> list_all is_digit (pad3 n) \<and> CHR '','' \<notin> set (pad3 n)"
    using digit_char_props [OF a(1)] digit_char_props [OF a(2)] digit_char_props [OF a(3)]
    by (simp add: pad3_def)
  from s v three_digits [of n] show ?thesis by simp
qed

lemma pad2_props:
  "length (pad2 n) = 2 \<and> list_all is_digit (pad2 n) \<and>
   (n < 100 \<longrightarrow> digits_value (pad2 n) = n)"
proof -
  have a: "n div 10 mod 10 < 10" "n mod 10 < 10" by simp_all
  have v: "digits_value (pad2 n) = n div 10 mod 10 * 10 + n mod 10"
    using digit_char_props(2) [OF a(1)] digit_char_props(2) [OF a(2)]
    by (simp add: pad2_def)
  have s: "length (pad2 n) = 2 \<and> list_all is_digit (pad2 n)"
    using digit_char_props [OF a(1)] digit_char_props [OF a(2)]
    by (simp add: pad2_def)
  from s v two_digits [of n] show ?thesis by simp
qed

lemma split_commas_nonempty: "split_commas s \<noteq> []"
  by (induction s) (auto split: list.splits)

lemma split_commas_plain: "CHR '','' \<notin> set s \<Longrightarrow> split_commas s = [s]"
  by (induction s) auto

lemma split_commas_append:
  "split_commas (a @ CHR '','' # b) = split_commas a @ split_commas b"
  using split_commas_nonempty
  by (induction a) (auto split: list.splits)

lemma commas_groups:
  "\<exists>g gs. split_commas (commas n) = g # gs \<and> 1 \<le> length g \<and> length g \<le> 3 \<and>
     list_all is_digit g \<and> list_all (\<lambda>h. length h = 3 \<and> list_all is_digit h) gs"
proof (induction n rule: commas.induct)
  case (1 n)
  show ?case
  proof (cases "n < 1000")
    case True
    then have "commas n = decimal n" by (subst commas.simps) simp
    moreover have "1 \<le> length (decimal n)"
      using decimal_props [of n] by (cases "decimal n") simp_all
    ultimately show ?thesis
      using decimal_props [of n] decimal_length [OF True] by (simp add: split_commas_plain)
  next
    case False
    then have c: "commas n = commas (n div 1000) @ CHR '','' # pad3 (n mod 1000)"
      by (subst commas.simps) simp
    from False 1 obtain g gs where "split_commas (commas (n div 1000)) = g # gs"
      "1 \<le> length g" "length g \<le> 3" "list_all is_digit g"
      "list_all (\<lambda>h. length h = 3 \<and> list_all is_digit h) gs"
      by auto
    then show ?thesis
      using pad3_props [of "n mod 1000"]
      by (simp add: c split_commas_append split_commas_plain)
  qed
qed

lemma grouped_commas: "grouped (commas n)"
  using commas_groups [of n] by (auto simp: grouped_def)

lemma commas_value: "digits_value (without_commas (commas n)) = n"
proof (induction n rule: commas.induct)
  case (1 n)
  show ?case
  proof (cases "n < 1000")
    case True
    then have "commas n = decimal n" by (subst commas.simps) simp
    moreover have "without_commas (decimal n) = decimal n"
      using decimal_props [of n] by (auto simp: without_commas_def filter_id_conv)
    ultimately show ?thesis using decimal_props [of n] by simp
  next
    case False
    then have c: "commas n = commas (n div 1000) @ CHR '','' # pad3 (n mod 1000)"
      by (subst commas.simps) simp
    have p: "without_commas (pad3 (n mod 1000)) = pad3 (n mod 1000)"
      using pad3_props [of "n mod 1000"] by (auto simp: without_commas_def filter_id_conv)
    from False 1 have "digits_value (without_commas (commas (n div 1000))) = n div 1000"
      by simp
    then show ?thesis
      using pad3_props [of "n mod 1000"] p
      by (simp add: c without_commas_def digits_value_append)
  qed
qed

lemma bit_length_le: "bit_length n \<le> k \<longleftrightarrow> n < 2 ^ k"
proof (induction n arbitrary: k rule: bit_length.induct)
  case (1 n)
  show ?case
  proof (cases "n = 0")
    case True
    then show ?thesis by (subst bit_length.simps) simp
  next
    case False
    show ?thesis
    proof (cases k)
      case 0
      with False show ?thesis by (subst bit_length.simps) simp
    next
      case (Suc j)
      have "n div 2 < 2 ^ j \<longleftrightarrow> n < 2 ^ Suc j" by auto
      with False Suc 1 [OF False, of j] show ?thesis
        by (subst bit_length.simps) simp
    qed
  qed
qed

lemma float_of_int_exact: "\<bar>i\<bar> < 2 ^ 53 \<Longrightarrow> float_of_int i = Some (of_int i)"
proof -
  assume "\<bar>i\<bar> < 2 ^ 53"
  then have "nat \<bar>i\<bar> < 2 ^ 53" by (simp add: nat_less_iff)
  then have "bit_length (nat \<bar>i\<bar>) \<le> 53" by (simp add: bit_length_le)
  then show ?thesis by (simp add: float_of_int_def Let_def)
qed

lemma round_half_even_nonneg: "0 \<le> x \<Longrightarrow> 0 \<le> round_half_even x"
  by (simp add: round_half_even_def Let_def)

lemma format_comma_2f_shape:
  "\<exists>whole cents.
     format_comma_2f (Finite x) = (if x < 0 then ''-'' else []) @ whole @ ''.'' @ cents
     \<and> grouped whole \<and> length cents = 2 \<and> list_all is_digit cents
     \<and> int (digits_value (without_commas whole)) * 100 + int (digits_value cents) =
         round_half_even (\<bar>x\<bar> * 100)"
proof -
  define c where "c = nat (round_half_even (\<bar>x\<bar> * 100))"
  have c: "int c = round_half_even (\<bar>x\<bar> * 100)"
    using round_half_even_nonneg [of "\<bar>x\<bar> * 100"] by (simp add: c_def)
  have f: "format_comma_2f (Finite x) =
      (if x < 0 then ''-'' else []) @ commas (c div 100) @ ''.'' @ pad2 (c mod 100)"
    by (simp add: format_comma_2f_def c_def Let_def)
  have "digits_value (without_commas (commas (c div 100))) * 100 + digits_value (pad2 (c mod 100))
      = c"
    using pad2_props [of "c mod 100"] by (simp add: commas_value)
  then have "int (digits_value (without_commas (commas (c div 100)))) * 100 +
      int (digits_value (pad2 (c mod 100))) = round_half_even (\<bar>x\<bar> * 100)"
    using c by (metis of_nat_add of_nat_mult of_nat_numeral)
  with f grouped_commas [of "c div 100"] pad2_props [of "c mod 100"] show ?thesis
    by blast
qed

section \<open>The display coercions: claims C1 and C5\<close>

lemma rupee_not_sentinel: "rupee @ s \<noteq> ''N/A''"
  by (simp add: rupee_def)

lemma blank_or_zero_cases:
  "blank_or_zero v \<longleftrightarrow> v \<in> {VNone, VNaN, VStr [], VInt 0, VFloat 0, VBool False}"
  by (cases v) (auto simp: blank_or_zero_def isna_def eq_zero_def)

lemma format_currency_sentinel:
  "format_currency L v = ''N/A'' \<longleftrightarrow>
     (\<exists>s. v = VStr s \<and> s \<noteq> [] \<and> py_float L s = None) \<or>
     (\<exists>i. v = VInt i \<and> float_of_int i = None)"
proof (cases "blank_or_zero v")
  case True
  have "float_of_int 0 \<noteq> None" by (simp add: float_of_int_exact)
  with True show ?thesis
    by (auto simp: format_currency_def rupee_not_sentinel blank_or_zero_cases)
next
  case False
  then have n: "v \<noteq> VStr []" "\<not> isna v" by (auto simp: blank_or_zero_def)
  show ?thesis
  proof (cases "currency_number L v")
    case None
    with False n show ?thesis
      by (cases v) (auto simp: format_currency_def currency_number_def isna_def)
  next
    case (Some x)
    with False show ?thesis
      by (cases v) (auto simp: format_currency_def currency_number_def rupee_not_sentinel)
  qed
qed

lemma format_currency_example: "format_currency L (VFloat 1234.5) = rupee @ ''1,234.50''"
  by (simp add: format_currency_def blank_or_zero_def isna_def eq_zero_def currency_number_def
      format_comma_2f_def round_half_even_def commas.simps decimal.simps pad2_def pad3_def
      digit_char_def)

lemma sample_floats:
  "py_float sample_runtime ''abc'' = None"
  "py_float sample_runtime ''1234.5'' = Some (Finite 1234.5)"
  by (simp_all add: sample_runtime_def)

lemma sample_currency:
  "format_currency sample_runtime (VStr ''1234.5'') = rupee @ ''1,234.50''"
  by (simp add: format_currency_def blank_or_zero_def isna_def eq_zero_def currency_number_def
      sample_floats format_comma_2f_def round_half_even_def commas.simps decimal.simps pad2_def
      pad3_def digit_char_def)

text \<open>
  \<^bold>\<open>C1\<close> (as amended). For every value \<open>v\<close>, \<open>format_currency\<close> yields the rupee sign
  followed by \<^verbatim>\<open>0.00\<close> when \<open>v\<close> is absent or null, the empty string, or zero (\<^verbatim>\<open>0\<close>,
  \<^verbatim>\<open>0.0\<close>, \<^verbatim>\<open>False\<close>); it yields \<^verbatim>\<open>N/A\<close> exactly when \<open>v\<close> is a non-empty string that
  \<^verbatim>\<open>float\<close> rejects or an integer too large for a float; for every other \<open>v\<close> whose
  number is finite it yields the rupee sign, a minus sign for a negative number, the
  whole part in groups of three digits separated by commas, a full stop and exactly two
  digits, which together write the number rounded to two decimals; 1234.5 gives the sign
  followed by \<^verbatim>\<open>1,234.50\<close>.
\<close>

theorem format_currency_cases:
  "(blank_or_zero v \<longrightarrow> format_currency L v = rupee @ ''0.00'')
   \<and> (blank_or_zero v \<longleftrightarrow> v \<in> {VNone, VNaN, VStr [], VInt 0, VFloat 0, VBool False})
   \<and> (format_currency L v = ''N/A'' \<longleftrightarrow>
        (\<exists>s. v = VStr s \<and> s \<noteq> [] \<and> py_float L s = None) \<or>
        (\<exists>i. v = VInt i \<and> float_of_int i = None))
   \<and> (\<not> blank_or_zero v \<and> currency_number L v = Some (Finite x) \<longrightarrow>
        (\<exists>whole cents.
           format_currency L v = rupee @ (if x < 0 then ''-'' else []) @ whole @ ''.'' @ cents
           \<and> grouped whole \<and> length cents = 2 \<and> list_all is_digit cents
           \<and> int (digits_value (without_commas whole)) * 100 + int (digits_value cents) =
               round_half_even (\<bar>x\<bar> * 100)))
   \<and> format_currency L (VFloat 1234.5) = rupee @ ''1,234.50''"
proof (intro conjI impI)
  assume "blank_or_zero v"
  then show "format_currency L v = rupee @ ''0.00''" by (simp add: format_currency_def)
next
  show "blank_or_zero v \<longleftrightarrow> v \<in> {VNone, VNaN, VStr [], VInt 0, VFloat 0, VBool False}"
    by (rule blank_or_zero_cases)
next
  show "format_currency L v = ''N/A'' \<longleftrightarrow>
        (\<exists>s. v = VStr s \<and> s \<noteq> [] \<and> py_float L s = None) \<or>
        (\<exists>i. v = VInt i \<and> float_of_int i = None)"
    by (rule format_currency_sentinel)
next
  assume h: "\<not> blank_or_zero v \<and> currency_number L v = Some (Finite x)"
  then have "format_currency L v = rupee @ format_comma_2f (Finite x)"
    by (simp add: format_currency_def)
  with format_comma_2f_shape [of x]
  show "\<exists>whole cents.
           format_currency L v = rupee @ (if x < 0 then ''-'' else []) @ whole @ ''.'' @ cents
           \<and> grouped whole \<and> length cents = 2 \<and> list_all is_digit cents
           \<and> int (digits_value (without_commas whole)) * 100 + int (digits_value cents) =
               round_half_even (\<bar>x\<bar> * 100)"
    by auto
next
  show "format_currency L (VFloat 1234.5) = rupee @ ''1,234.50''"
    by (rule format_currency_example)
qed

text \<open>The theorem at zero, at a string that is not a number and at the string
  \<^verbatim>\<open>1234.5\<close>.\<close>

theorem format_currency_cases_witness:
  "blank_or_zero (VInt 0) \<and> format_currency sample_runtime (VInt 0) = rupee @ ''0.00''
   \<and> py_float sample_runtime ''abc'' = None
   \<and> format_currency sample_runtime (VStr ''abc'') = ''N/A''
   \<and> \<not> blank_or_zero (VStr ''1234.5'')
   \<and> currency_number sample_runtime (VStr ''1234.5'') = Some (Finite 1234.5)
   \<and> format_currency sample_runtime (VStr ''1234.5'') = rupee @ ''1,234.50''"
  using format_currency_cases [of "VInt 0" sample_runtime 0]
    format_currency_cases [of "VStr ''abc''" sample_runtime 0]
    format_currency_cases [of "VStr ''1234.5''" sample_runtime "1234.5"]
  by (simp add: sample_floats sample_currency currency_number_def)

text \<open>Against C1 as stated: zero, the null value and the empty string give the rupee sign
  and \<^verbatim>\<open>0.00\<close>, not the sentinel \<^verbatim>\<open>N/A\<close>.\<close>

theorem format_currency_counterexample:
  "format_currency sample_runtime (VInt 0) = rupee @ ''0.00''
   \<and> format_currency sample_runtime VNone = rupee @ ''0.00''
   \<and> format_currency sample_runtime (VStr []) = rupee @ ''0.00''
   \<and> rupee @ ''0.00'' \<noteq> ''N/A''"
  by (simp add: format_currency_def blank_or_zero_def isna_def eq_zero_def rupee_not_sentinel)




section \<open>The parser: claims C6 and C7\<close>


















section \<open>Selecting rows\<close>

lemma select_rows_simps [simp]:
  "rows (select_rows keep df) = filter keep (rows df)"
  "columns (select_rows keep df) = columns df"
  by (simp_all add: select_rows_def)

lemma select_rows_all: "select_rows (\<lambda>r. True) df = df"
  by (simp add: select_rows_def)

lemma select_rows_twice: "select_rows p (select_rows q df) = select_rows (\<lambda>r. q r \<and> p r) df"
  by (simp add: select_rows_def)

text \<open>Every block of the sidebar either leaves the frame alone or keeps the rows that
  satisfy one predicate.\<close>


lemma category_filter_select: "\<exists>keep. category_filter L c s df = select_rows keep df"
  unfolding category_filter_def
  by (auto split: option.splits intro: exI [of _ "\<lambda>r. True"] simp: select_rows_all)

lemma lot_filter_select: "\<exists>keep. lot_filter L m df = select_rows keep df"
  unfolding lot_filter_def Let_def
  by (auto split: option.splits prod.splits intro: exI [of _ "\<lambda>r. True"] simp: select_rows_all)

lemma strike_filter_select: "\<exists>keep. strike_filter L m df = select_rows keep df"
  unfolding strike_filter_def Let_def
  by (auto split: option.splits prod.splits intro: exI [of _ "\<lambda>r. True"] simp: select_rows_all)

lemma weekly_filter_select: "\<exists>keep. weekly_filter w df = select_rows keep df"
  unfolding weekly_filter_def
  by (cases w) (auto intro: exI [of _ "\<lambda>r. True"] simp: select_rows_all)

lemma search_filter_select:
  "search_filter L t df = Inr df' \<Longrightarrow> \<exists>keep. df' = select_rows keep df"
  unfolding search_filter_def
  by (auto split: if_splits option.splits intro: exI [of _ "\<lambda>r. True"] simp: select_rows_all)

lemma apply_stage_select:
  assumes "apply_stage L sel s df = Inr df'"
  shows "\<exists>keep. df' = select_rows keep df"
proof (cases s)
  case Search
  with assms show ?thesis by (simp add: search_filter_select)
next
  case LotSize
  with assms lot_filter_select [of L "sel_lot sel" df] show ?thesis by auto
next
  case StrikePrice
  with assms strike_filter_select [of L "sel_strike sel" df] show ?thesis by auto
next
  case Weekly
  with assms weekly_filter_select [of "sel_weekly sel" df] show ?thesis by auto
qed (use assms category_filter_select [of L _ _ df] in auto)

lemma run_stages_select:
  "run_stages L sel ss df = Inr df' \<Longrightarrow> \<exists>keep. df' = select_rows keep df"
proof (induction ss arbitrary: df)
  case Nil
  then show ?case using select_rows_all [of df] by (auto intro: exI [of _ "\<lambda>r. True"])
next
  case (Cons s ss)
  then obtain d where d: "apply_stage L sel s df = Inr d" and r: "run_stages L sel ss d = Inr df'"
    by (auto split: sum.splits)
  from apply_stage_select [OF d] obtain q where "d = select_rows q df" by blast
  moreover from Cons.IH [OF r] obtain p where "df' = select_rows p d" by blast
  ultimately show ?case by (auto simp: select_rows_twice)
qed

lemma run_stages_narrows:
  assumes "run_stages L sel ss df = Inr df'"
  shows "columns df' = columns df" and "\<exists>keep. rows df' = filter keep (rows df)"
  using run_stages_select [OF assms] by auto

lemma main_filters_run: "main_filters L sel df = run_stages L sel sidebar_order df"
  by (simp add: main_filters_def sidebar_order_def Let_def split: sum.splits)

subsection \<open>Blocks that do nothing\<close>

lemma category_filter_All: "category_filter L c ''All'' df = df"
  by (simp add: category_filter_def split: option.splits)

lemma category_options_absent: "c \<notin> set (columns df) \<Longrightarrow> category_options L c df = None"
  by (simp add: category_options_def)

lemma category_filter_absent: "c \<notin> set (columns df) \<Longrightarrow> category_filter L c s df = df"
  by (simp add: category_filter_def category_options_absent)

lemma lot_filter_absent: "''lot_size'' \<notin> set (columns df) \<Longrightarrow> lot_filter L m df = df"
  by (simp add: lot_filter_def lot_bounds_def)

lemma strike_filter_absent: "''strike_price'' \<notin> set (columns df) \<Longrightarrow> strike_filter L m df = df"
  by (simp add: strike_filter_def strike_bounds_def)

lemma weekly_filter_all: "weekly_filter AllOptions d = d"
  by (simp add: weekly_filter_def)

lemma search_filter_empty: "search_filter L [] d = Inr d"
  by (simp add: search_filter_def)

lemma search_filter_rows:
  "search_filter L t (select_rows k d) = Inr b \<Longrightarrow> search_filter L t d = Inr a \<Longrightarrow>
   rows b = filter k (rows a)"
  unfolding search_filter_def
  by (auto split: if_splits option.splits simp: conj_commute)

subsection \<open>What the blocks keep\<close>

text \<open>What the two restrictive options of the radio keep.\<close>

lemma weekly_filter_keeps:
  "weekly_offered df \<Longrightarrow>
     rows (weekly_filter WeeklyOnly df) = filter (\<lambda>r. eq_bool (cell r ''weekly'') True) (rows df) \<and>
     rows (weekly_filter MonthlyOnly df) = filter (\<lambda>r. eq_bool (cell r ''weekly'') False) (rows df)"
  by (simp add: weekly_filter_def)

lemma eq_bool_cases:
  "eq_bool v b \<longleftrightarrow>
     v = VBool b \<or> v = VInt (if b then 1 else 0) \<or> v = VFloat (if b then 1 else 0)"
  by (cases v) (auto simp: eq_bool_def)

lemma contains_sublist: "contains p s \<longleftrightarrow> sublist p s"
  by (induction s) (simp_all add: sublist_Cons_right)

lemma str_contains_plain:
  assumes "plain_pattern pat"
  shows "\<exists>found. str_contains L pat = Some found \<and>
           (\<forall>s. is_ascii s \<longrightarrow> found s = sublist (lower pat) (lower s))"
  using assms by (simp add: str_contains_def contains_sublist)

lemma set_map_filter_Some:
  "set (List.map_filter f xs) = {y. \<exists>x \<in> set xs. f x = Some y}"
  by (induction xs) (auto split: option.splits)

lemma numeric_values_set:
  "set (numeric_values L c df) = {x. \<exists>r \<in> set (rows df). to_numeric L (cell r c) = Some x}"
  by (auto simp: numeric_values_def set_map_filter_Some column_def)

text \<open>The strike price slider, left alone, keeps exactly the rows with a number.\<close>

lemma strike_full_range:
  assumes "strike_bounds L df = Some b"
  shows "rows (strike_filter L None df) =
           filter (\<lambda>r. to_numeric L (cell r ''strike_price'') \<noteq> None) (rows df)"
proof -
  let ?vs = "numeric_values L ''strike_price'' df"
  from assms have b: "b = (Min (set ?vs), Max (set ?vs))"
    by (auto simp: strike_bounds_def Let_def split: if_splits)
  have "in_range L ''strike_price'' (Min (set ?vs)) (Max (set ?vs)) r \<longleftrightarrow>
        to_numeric L (cell r ''strike_price'') \<noteq> None" if "r \<in> set (rows df)" for r
  proof (cases "to_numeric L (cell r ''strike_price'')")
    case None
    then show ?thesis by (simp add: in_range_def)
  next
    case (Some x)
    with that have "x \<in> set ?vs" by (auto simp: numeric_values_set)
    then have "Min (set ?vs) \<le> x \<and> x \<le> Max (set ?vs)" by simp
    with Some show ?thesis by (simp add: in_range_def)
  qed
  then have "filter (in_range L ''strike_price'' (Min (set ?vs)) (Max (set ?vs))) (rows df) =
      filter (\<lambda>r. to_numeric L (cell r ''strike_price'') \<noteq> None) (rows df)"
    by (intro filter_cong) auto
  with assms b show ?thesis
    by (simp add: strike_filter_def)
qed

subsection \<open>The table, row by row\<close>

lemma cell_Cons: "cell ((k, v) # r) c = (if c = k then v else cell r c)"
  by (simp add: cell_def)

lemma rows_display_df: "rows (display_df L df) = map (display_row L (columns df)) (rows df)"
  by (simp add: display_df_def display_row_def [abs_def] assign_def Let_def cell_Cons)

lemma table_rows:
  "table L df =
     map (\<lambda>r. map (cell (display_row L (columns df) r)) (display_columns (display_df L df)))
       (rows df)"
  by (simp add: table_def Let_def rows_display_df comp_def)

lemma display_row_raw:
  "c \<noteq> ''expiry_date'' \<Longrightarrow> c \<noteq> ''strike_price_formatted'' \<Longrightarrow>
   cell (display_row L cols r) c = cell r c"
  by (simp add: display_row_def Let_def cell_Cons)

section \<open>The example frame, block by block\<close>

lemmas sample_defs =
  sample_runtime_def instruments_def nifty_fut_def sensex_ce_def banknifty_fut_def

lemma instruments_exchange:
  "category_values sample_runtime ''exchange'' instruments = [''NSE'', ''BSE'', ''NSE'']"
  by (simp add: category_values_def dropna_def column_def cell_def astype_str_def strip_def
      isspace_def isna_def sample_defs)

lemma instruments_NSE:
  "category_filter sample_runtime ''exchange'' ''NSE'' instruments =
     instruments\<lparr>rows := [nifty_fut, banknifty_fut]\<rparr>"
proof -
  have "filter (\<lambda>r. strip (astype_str sample_runtime (cell r ''exchange'')) = ''NSE'')
          (rows instruments) = [nifty_fut, banknifty_fut]"
    by (simp add: cell_def astype_str_def strip_def isspace_def sample_defs)
  then show ?thesis
    by (simp add: category_filter_def category_options_def instruments_exchange select_rows_def)
      (simp add: instruments_def)
qed



lemma instruments_lot_filter:
  "lot_filter sample_runtime None instruments = instruments\<lparr>rows := [nifty_fut, sensex_ce]\<rparr>"
proof -
  have v: "numeric_values sample_runtime ''lot_size'' instruments = [50, 75]"
    by (simp add: numeric_values_def List.map_filter_def column_def cell_def to_numeric_def
        sample_defs)
  have b: "lot_bounds sample_runtime instruments = Some (50, 75)"
    by (simp add: lot_bounds_def v py_int_def) (simp add: instruments_def)
  have "filter (in_range sample_runtime ''lot_size'' 50 75) (rows instruments) =
          [nifty_fut, sensex_ce]"
    by (simp add: in_range_def cell_def to_numeric_def sample_defs)
  then show ?thesis
    by (simp add: lot_filter_def b select_rows_def)
qed

lemma instruments_NSE_lot_filter:
  "lot_filter sample_runtime None (instruments\<lparr>rows := [nifty_fut, banknifty_fut]\<rparr>) =
     instruments\<lparr>rows := [nifty_fut, banknifty_fut]\<rparr>"
proof -
  have "numeric_values sample_runtime ''lot_size''
          (instruments\<lparr>rows := [nifty_fut, banknifty_fut]\<rparr>) = [50]"
    by (simp add: numeric_values_def List.map_filter_def column_def cell_def to_numeric_def
        sample_defs)
  then show ?thesis
    by (simp add: lot_filter_def lot_bounds_def)
qed

lemma instruments_no_strike:
  "strike_filter sample_runtime m (instruments\<lparr>rows := rs\<rparr>) = instruments\<lparr>rows := rs\<rparr>"
  by (rule strike_filter_absent) (simp add: instruments_def)

lemma instruments_untouched:
  "main_filters sample_runtime untouched instruments =
     Inr (instruments\<lparr>rows := [nifty_fut, sensex_ce]\<rparr>)"
  by (simp add: main_filters_def untouched_def category_filter_All instruments_lot_filter
      instruments_no_strike weekly_filter_all search_filter_empty)

lemma instruments_NSE_only:
  "main_filters sample_runtime (untouched\<lparr>sel_exchange := ''NSE''\<rparr>) instruments =
     Inr (instruments\<lparr>rows := [nifty_fut, banknifty_fut]\<rparr>)"
  by (simp add: main_filters_def untouched_def category_filter_All instruments_NSE
      instruments_NSE_lot_filter instruments_no_strike weekly_filter_all search_filter_empty)

lemma instruments_lot_weekly:
  "weekly_filter WeeklyOnly (instruments\<lparr>rows := [nifty_fut, sensex_ce]\<rparr>) =
     instruments\<lparr>rows := [sensex_ce]\<rparr>"
proof -
  have o: "weekly_offered (instruments\<lparr>rows := [nifty_fut, sensex_ce]\<rparr>)"
    by (simp add: weekly_offered_def dropna_def column_def cell_def isna_def sample_defs)
  have "filter (\<lambda>r. eq_bool (cell r ''weekly'') True) [nifty_fut, sensex_ce] = [sensex_ce]"
    by (simp add: cell_def eq_bool_def sample_defs)
  with o show ?thesis
    by (simp add: weekly_filter_def select_rows_def)
qed

lemma instruments_weekly_only:
  "main_filters sample_runtime (untouched\<lparr>sel_weekly := WeeklyOnly\<rparr>) instruments =
     Inr (instruments\<lparr>rows := [sensex_ce]\<rparr>)"
  by (simp add: main_filters_def untouched_def category_filter_All instruments_lot_filter
      instruments_no_strike instruments_lot_weekly search_filter_empty)

lemma plain_fut: "plain_pattern ''fut''"
  by (simp add: plain_pattern_def plain_char_def)

lemma instruments_fut:
  "search_filter sample_runtime ''fut'' instruments =
     Inr (instruments\<lparr>rows := [nifty_fut, banknifty_fut]\<rparr>)"
proof -
  let ?sym = "\<lambda>r. astype_str sample_runtime (cell r ''trading_symbol'')"
  have c: "filter (\<lambda>r. contains (lower ''fut'') (lower (?sym r))) (rows instruments) =
      [nifty_fut, banknifty_fut]"
    by (simp add: cell_def astype_str_def lower_def lower_char_def sample_defs)
  have a: "\<forall>r \<in> set (rows instruments). is_ascii (?sym r)"
    by (simp add: cell_def astype_str_def is_ascii_def sample_defs)
  have "filter (\<lambda>r. if is_ascii (?sym r) then contains (lower ''fut'') (lower (?sym r))
                    else (case re_compile sample_runtime ''fut'' of None \<Rightarrow> False
                          | Some m \<Rightarrow> m (?sym r))) (rows instruments) =
        filter (\<lambda>r. contains (lower ''fut'') (lower (?sym r))) (rows instruments)"
    by (rule filter_cong) (use a in auto)
  with c show ?thesis
    by (simp add: search_filter_def str_contains_def plain_fut select_rows_def)
      (simp add: instruments_def)
qed

lemma instruments_lot_fut:
  "search_filter sample_runtime ''fut'' (instruments\<lparr>rows := [nifty_fut, sensex_ce]\<rparr>) =
     Inr (instruments\<lparr>rows := [nifty_fut]\<rparr>)"
proof -
  let ?sym = "\<lambda>r. astype_str sample_runtime (cell r ''trading_symbol'')"
  have c: "filter (\<lambda>r. contains (lower ''fut'') (lower (?sym r))) [nifty_fut, sensex_ce] =
      [nifty_fut]"
    by (simp add: cell_def astype_str_def lower_def lower_char_def sample_defs)
  have a: "\<forall>r \<in> set [nifty_fut, sensex_ce]. is_ascii (?sym r)"
    by (simp add: cell_def astype_str_def is_ascii_def sample_defs)
  have "filter (\<lambda>r. if is_ascii (?sym r) then contains (lower ''fut'') (lower (?sym r))
                    else (case re_compile sample_runtime ''fut'' of None \<Rightarrow> False
                          | Some m \<Rightarrow> m (?sym r))) [nifty_fut, sensex_ce] =
        filter (\<lambda>r. contains (lower ''fut'') (lower (?sym r))) [nifty_fut, sensex_ce]"
    by (rule filter_cong) (use a in auto)
  with c show ?thesis
    by (simp add: search_filter_def str_contains_def plain_fut select_rows_def)
      (simp add: instruments_def)
qed

lemma instruments_search_fut:
  "main_filters sample_runtime (untouched\<lparr>search_term := ''fut''\<rparr>) instruments =
     Inr (instruments\<lparr>rows := [nifty_fut]\<rparr>)"
  by (simp add: main_filters_def untouched_def category_filter_All instruments_lot_filter
      instruments_no_strike weekly_filter_all instruments_lot_fut)

lemma sample_rows_differ: "banknifty_fut \<noteq> nifty_fut" "banknifty_fut \<noteq> sensex_ce"
  by (simp_all add: nifty_fut_def sensex_ce_def banknifty_fut_def)

section \<open>The sidebar: claims C2, C3, C4, C8 and C9\<close>




text \<open>
  \<^bold>\<open>C3\<close> (the code departs from the claim). On the frame of numeric flags the radio is
  shown, \<^verbatim>\<open>Weekly Only\<close> keeps the record whose flag is the number 1 and
  \<^verbatim>\<open>Monthly Only\<close> the record whose flag is the number 0: \<^verbatim>\<open>df['weekly'] == True\<close> is
  Python's equality, under which \<^verbatim>\<open>1 == True\<close> and \<^verbatim>\<open>0 == False\<close>.
\<close>

theorem weekly_filter_keeps_numbers:
  "weekly_offered numeric_flags
   \<and> weekly_filter WeeklyOnly numeric_flags = numeric_flags\<lparr>rows := [flag_one]\<rparr>
   \<and> weekly_filter MonthlyOnly numeric_flags = numeric_flags\<lparr>rows := [flag_zero]\<rparr>
   \<and> main_filters sample_runtime (untouched\<lparr>sel_weekly := WeeklyOnly\<rparr>) numeric_flags =
       Inr (numeric_flags\<lparr>rows := [flag_one]\<rparr>)
   \<and> cell flag_one ''weekly'' = VInt 1 \<and> cell flag_zero ''weekly'' = VInt 0"
proof -
  have o: "weekly_offered numeric_flags"
    by (simp add: weekly_offered_def dropna_def column_def cell_def isna_def numeric_flags_def
        flag_one_def flag_zero_def)
  have w: "weekly_filter WeeklyOnly numeric_flags = numeric_flags\<lparr>rows := [flag_one]\<rparr>"
    by (simp add: weekly_filter_def o select_rows_def)
      (simp add: cell_def eq_bool_def numeric_flags_def flag_one_def flag_zero_def)
  have m: "weekly_filter MonthlyOnly numeric_flags = numeric_flags\<lparr>rows := [flag_zero]\<rparr>"
    by (simp add: weekly_filter_def o select_rows_def)
      (simp add: cell_def eq_bool_def numeric_flags_def flag_one_def flag_zero_def)
  have c: "columns numeric_flags = [''weekly'']"
    by (simp add: numeric_flags_def)
  have f: "main_filters sample_runtime (untouched\<lparr>sel_weekly := WeeklyOnly\<rparr>) numeric_flags =
       Inr (numeric_flags\<lparr>rows := [flag_one]\<rparr>)"
    by (simp add: main_filters_def untouched_def category_filter_All lot_filter_absent
        strike_filter_absent search_filter_empty w c)
  have v: "cell flag_one ''weekly'' = VInt 1 \<and> cell flag_zero ''weekly'' = VInt 0"
    by (simp add: cell_def flag_one_def flag_zero_def)
  from o w m f v show ?thesis by (intro conjI) simp_all
qed

text \<open>
  \<^bold>\<open>C4\<close> (as amended). For every frame with a \<^verbatim>\<open>trading_symbol\<close> column and every non-empty
  search term made of letters, digits and spaces, the search keeps rows of the frame, and
  among the rows whose trading symbol is present, not null and ASCII it keeps exactly
  those whose string representation contains the term as a substring, case-insensitively.
  When the term is empty, or no record of the frame has a trading symbol, the search keeps
  all rows unchanged.
\<close>

theorem search_filter_plain:
  "(needle = [] \<or> ''trading_symbol'' \<notin> set (columns df) \<longrightarrow> search_filter L needle df = Inr df)
   \<and> (needle \<noteq> [] \<and> plain_pattern needle \<and> ''trading_symbol'' \<in> set (columns df) \<longrightarrow>
        (\<exists>keep. search_filter L needle df = Inr (select_rows keep df) \<and>
           (\<forall>r. \<not> isna (cell r ''trading_symbol'') \<and>
                 is_ascii (astype_str L (cell r ''trading_symbol'')) \<longrightarrow>
                 keep r = sublist (lower needle) (lower (astype_str L (cell r ''trading_symbol''))))))"
proof (intro conjI impI)
  assume "needle = [] \<or> ''trading_symbol'' \<notin> set (columns df)"
  then show "search_filter L needle df = Inr df"
    by (auto simp: search_filter_def)
next
  assume h: "needle \<noteq> [] \<and> plain_pattern needle \<and> ''trading_symbol'' \<in> set (columns df)"
  then obtain found where f: "str_contains L needle = Some found"
    and s: "\<And>s. is_ascii s \<Longrightarrow> found s = sublist (lower needle) (lower s)"
    using str_contains_plain [of needle L] by blast
  have "search_filter L needle df =
      Inr (select_rows (\<lambda>r. found (astype_str L (cell r ''trading_symbol''))) df)"
    using h f by (simp add: search_filter_def)
  with s show "\<exists>keep. search_filter L needle df = Inr (select_rows keep df) \<and>
           (\<forall>r. \<not> isna (cell r ''trading_symbol'') \<and>
                 is_ascii (astype_str L (cell r ''trading_symbol'')) \<longrightarrow>
                 keep r = sublist (lower needle) (lower (astype_str L (cell r ''trading_symbol''))))"
    by (intro exI [of _ "\<lambda>r. found (astype_str L (cell r ''trading_symbol''))"]) simp
qed

text \<open>The theorem at the example frame: the empty term keeps all three rows, \<^verbatim>\<open>fut\<close>
  keeps the two futures.\<close>

theorem search_filter_plain_witness:
  "search_filter sample_runtime [] instruments = Inr instruments
   \<and> ''fut'' \<noteq> [] \<and> plain_pattern ''fut'' \<and> ''trading_symbol'' \<in> set (columns instruments)
   \<and> (\<exists>keep. search_filter sample_runtime ''fut'' instruments = Inr (select_rows keep instruments)
        \<and> keep nifty_fut = sublist ''fut'' ''nifty fut 27 nov 36''
        \<and> keep sensex_ce = sublist ''fut'' ''sensex 81000 ce'')
   \<and> search_filter sample_runtime ''fut'' instruments =
        Inr (instruments\<lparr>rows := [nifty_fut, banknifty_fut]\<rparr>)"
proof -
  have p: "''fut'' \<noteq> [] \<and> plain_pattern ''fut'' \<and> ''trading_symbol'' \<in> set (columns instruments)"
    by (simp add: plain_fut instruments_def)
  from search_filter_plain [of "''fut''" instruments sample_runtime] p
  obtain keep
    where k: "search_filter sample_runtime ''fut'' instruments = Inr (select_rows keep instruments)"
    and a: "\<And>r. \<not> isna (cell r ''trading_symbol'') \<Longrightarrow>
              is_ascii (astype_str sample_runtime (cell r ''trading_symbol'')) \<Longrightarrow>
              keep r = sublist (lower ''fut'')
                (lower (astype_str sample_runtime (cell r ''trading_symbol'')))"
    by blast
  have "keep nifty_fut = sublist ''fut'' ''nifty fut 27 nov 36''"
    using a [of nifty_fut]
    by (simp add: cell_def astype_str_def is_ascii_def isna_def lower_def lower_char_def
        nifty_fut_def sample_runtime_def)
  moreover have "keep sensex_ce = sublist ''fut'' ''sensex 81000 ce''"
    using a [of sensex_ce]
    by (simp add: cell_def astype_str_def is_ascii_def isna_def lower_def lower_char_def
        sensex_ce_def sample_runtime_def)
  ultimately show ?thesis
    using k p search_filter_plain [of "[]" instruments sample_runtime] instruments_fut by auto
qed

text \<open>Against C4 as stated. Where no record has a trading symbol the column does not
  exist and the search is skipped: the record stays although its trading symbol is
  missing. And the term is a regular expression: \<^verbatim>\<open>.\<close> keeps \<^verbatim>\<open>NIFTY\<close>, which does
  not contain a full stop.\<close>

theorem search_filter_counterexample:
  "search_filter sample_runtime ''x'' unnamed = Inr unnamed
   \<and> rows unnamed = [[(''name'', VStr ''x'')]]
   \<and> isna (cell [(''name'', VStr ''x'')] ''trading_symbol'')
   \<and> search_filter sample_runtime ''.'' nifty_only = Inr nifty_only
   \<and> rows nifty_only = [[(''trading_symbol'', VStr ''NIFTY'')]]
   \<and> \<not> sublist ''.'' ''NIFTY''"
  by (simp add: search_filter_def str_contains_def plain_pattern_def plain_char_def
      select_rows_def cell_def astype_str_def isna_def sample_runtime_def
      contains_sublist [symmetric] unnamed_def nifty_only_def)

text \<open>What the amended claim leaves open: a missing trading symbol reads \<^verbatim>\<open>nan\<close> after
  \<^verbatim>\<open>astype(str)\<close>, so the term \<^verbatim>\<open>na\<close> keeps the record without a symbol.\<close>

lemma search_filter_null_symbol:
  "search_filter sample_runtime ''na'' half_named =
     Inr (half_named\<lparr>rows := [[(''name'', VStr ''x'')]]\<rparr>)"
  by (simp add: search_filter_def str_contains_def plain_pattern_def plain_char_def is_ascii_def
      lower_def lower_char_def select_rows_def cell_def astype_str_def sample_runtime_def
      half_named_def)

text \<open>
  \<^bold>\<open>C8\<close> (as amended). For every frame and every selection, whatever the order in which the
  blocks of the sidebar run, the result keeps the rows of the frame that satisfy one
  predicate: it is a subset of the frame and no longer than it. \<open>main\<close> runs the blocks in
  the order of the sidebar. Restricting the weekly radio or typing a search term, the last
  two controls, yields a subset of what the same selection yields without that
  restriction.
\<close>

theorem filtering_narrows:
  "(run_stages L sel ss df = Inr df' \<longrightarrow>
      (\<exists>keep. rows df' = filter keep (rows df)) \<and> set (rows df') \<subseteq> set (rows df) \<and>
      length (rows df') \<le> length (rows df))
   \<and> main_filters L sel df = run_stages L sel sidebar_order df
   \<and> (main_filters L (sel\<lparr>sel_weekly := AllOptions\<rparr>) df = Inr a \<and> main_filters L sel df = Inr b \<longrightarrow>
        (\<exists>keep. rows b = filter keep (rows a)) \<and> set (rows b) \<subseteq> set (rows a))
   \<and> (main_filters L (sel\<lparr>search_term := []\<rparr>) df = Inr a \<and> main_filters L sel df = Inr b \<longrightarrow>
        (\<exists>keep. rows b = filter keep (rows a)) \<and> set (rows b) \<subseteq> set (rows a))"
proof (intro conjI impI)
  assume r: "run_stages L sel ss df = Inr df'"
  from run_stages_narrows(2) [OF r] obtain keep where k: "rows df' = filter keep (rows df)"
    by blast
  then show "\<exists>keep. rows df' = filter keep (rows df)" by blast
  from k show "set (rows df') \<subseteq> set (rows df)" by auto
  from k show "length (rows df') \<le> length (rows df)" by simp
next
  show "main_filters L sel df = run_stages L sel sidebar_order df" by (rule main_filters_run)
next
  assume h: "main_filters L (sel\<lparr>sel_weekly := AllOptions\<rparr>) df = Inr a \<and>
    main_filters L sel df = Inr b"
  define d6 where "d6 = strike_filter L (sel_strike sel) (lot_filter L (sel_lot sel)
     (category_filter L ''underlying_type'' (sel_underlying sel)
       (category_filter L ''segment'' (sel_segment sel)
         (category_filter L ''instrument_type'' (sel_type sel)
           (category_filter L ''exchange'' (sel_exchange sel) df)))))"
  from h have a: "search_filter L (search_term sel) d6 = Inr a"
    by (simp add: main_filters_def Let_def d6_def weekly_filter_all)
  from h have b: "search_filter L (search_term sel) (weekly_filter (sel_weekly sel) d6) = Inr b"
    by (simp add: main_filters_def Let_def d6_def)
  obtain k where k: "weekly_filter (sel_weekly sel) d6 = select_rows k d6"
    using weekly_filter_select by blast
  have e: "rows b = filter k (rows a)"
    using search_filter_rows [OF b [unfolded k] a] .
  then show "\<exists>keep. rows b = filter keep (rows a)" by blast
  from e show "set (rows b) \<subseteq> set (rows a)" by auto
next
  assume h: "main_filters L (sel\<lparr>search_term := []\<rparr>) df = Inr a \<and> main_filters L sel df = Inr b"
  define d7 where "d7 = weekly_filter (sel_weekly sel) (strike_filter L (sel_strike sel)
     (lot_filter L (sel_lot sel)
     (category_filter L ''underlying_type'' (sel_underlying sel)
       (category_filter L ''segment'' (sel_segment sel)
         (category_filter L ''instrument_type'' (sel_type sel)
           (category_filter L ''exchange'' (sel_exchange sel) df))))))"
  from h have a: "a = d7"
    by (simp add: main_filters_def Let_def d7_def search_filter_empty)
  from h have b: "search_filter L (search_term sel) d7 = Inr b"
    by (simp add: main_filters_def Let_def d7_def)
  from search_filter_select [OF b] obtain k where "b = select_rows k d7" by blast
  with a have e: "rows b = filter k (rows a)" by simp
  then show "\<exists>keep. rows b = filter keep (rows a)" by blast
  from e show "set (rows b) \<subseteq> set (rows a)" by auto
qed

text \<open>The theorem at the example frame: with the exchange on \<^verbatim>\<open>NSE\<close> two of the three
  rows are left; \<^verbatim>\<open>Weekly Only\<close> and the search term \<^verbatim>\<open>fut\<close> each leave one of the two
  rows that an untouched sidebar leaves.\<close>

theorem filtering_narrows_witness:
  "run_stages sample_runtime (untouched\<lparr>sel_exchange := ''NSE''\<rparr>) sidebar_order instruments =
     Inr (instruments\<lparr>rows := [nifty_fut, banknifty_fut]\<rparr>)
   \<and> set [nifty_fut, banknifty_fut] \<subseteq> set (rows instruments)
   \<and> length [nifty_fut, banknifty_fut] \<le> length (rows instruments)
   \<and> main_filters sample_runtime untouched instruments =
       Inr (instruments\<lparr>rows := [nifty_fut, sensex_ce]\<rparr>)
   \<and> main_filters sample_runtime (untouched\<lparr>sel_weekly := WeeklyOnly\<rparr>) instruments =
       Inr (instruments\<lparr>rows := [sensex_ce]\<rparr>)
   \<and> set [sensex_ce] \<subseteq> set [nifty_fut, sensex_ce]
   \<and> main_filters sample_runtime (untouched\<lparr>search_term := ''fut''\<rparr>) instruments =
       Inr (instruments\<lparr>rows := [nifty_fut]\<rparr>)
   \<and> set [nifty_fut] \<subseteq> set [nifty_fut, sensex_ce]"
proof -
  have r: "run_stages sample_runtime (untouched\<lparr>sel_exchange := ''NSE''\<rparr>) sidebar_order
      instruments = Inr (instruments\<lparr>rows := [nifty_fut, banknifty_fut]\<rparr>)"
    using instruments_NSE_only by (simp add: main_filters_run)
  have u: "untouched\<lparr>sel_weekly := WeeklyOnly, sel_weekly := AllOptions\<rparr> = untouched"
    "untouched\<lparr>search_term := ''fut'', search_term := []\<rparr> = untouched"
    by (simp_all add: untouched_def)
  from filtering_narrows [of sample_runtime "untouched\<lparr>sel_exchange := ''NSE''\<rparr>"
      sidebar_order instruments "instruments\<lparr>rows := [nifty_fut, banknifty_fut]\<rparr>"] r
  have 1: "set [nifty_fut, banknifty_fut] \<subseteq> set (rows instruments)
     \<and> length [nifty_fut, banknifty_fut] \<le> length (rows instruments)"
    by simp
  from filtering_narrows [of sample_runtime "untouched\<lparr>sel_weekly := WeeklyOnly\<rparr>"
      "[]" instruments instruments "instruments\<lparr>rows := [nifty_fut, sensex_ce]\<rparr>"
      "instruments\<lparr>rows := [sensex_ce]\<rparr>"]
  have 2: "set [sensex_ce] \<subseteq> set [nifty_fut, sensex_ce]"
    by (simp add: u instruments_untouched instruments_weekly_only)
  from filtering_narrows [of sample_runtime "untouched\<lparr>search_term := ''fut''\<rparr>"
      "[]" instruments instruments "instruments\<lparr>rows := [nifty_fut, sensex_ce]\<rparr>"
      "instruments\<lparr>rows := [nifty_fut]\<rparr>"]
  have 3: "set [nifty_fut] \<subseteq> set [nifty_fut, sensex_ce]"
    by (simp add: u instruments_untouched instruments_search_fut)
  from r 1 2 3 show ?thesis
    by (simp add: instruments_untouched instruments_weekly_only instruments_search_fut)
qed

text \<open>Against C8 as stated: on the example frame a user who touches nothing gets the two
  rows with a lot size (the lot size slider is shown, and its filter drops the row
  without one); picking \<^verbatim>\<open>NSE\<close> and nothing else leaves one lot size, so no slider is
  shown, and the row without a lot size stays. The more constrained result is not a subset
  of the less constrained one.\<close>

theorem filtering_monotone_counterexample:
  "main_filters sample_runtime untouched instruments =
     Inr (instruments\<lparr>rows := [nifty_fut, sensex_ce]\<rparr>)
   \<and> main_filters sample_runtime (untouched\<lparr>sel_exchange := ''NSE''\<rparr>) instruments =
     Inr (instruments\<lparr>rows := [nifty_fut, banknifty_fut]\<rparr>)
   \<and> banknifty_fut \<in> set [nifty_fut, banknifty_fut]
   \<and> banknifty_fut \<notin> set [nifty_fut, sensex_ce]"
  by (simp add: instruments_untouched instruments_NSE_only sample_rows_differ)

text \<open>
  \<^bold>\<open>C9\<close> (the code departs from the claim). The strike price slider left alone keeps every
  row with a number (\<open>strike_full_range\<close>). The lot size slider takes \<^verbatim>\<open>int(min)\<close> and
  \<^verbatim>\<open>int(max)\<close> for its bounds: on the frame of fractional lots they are 1 and 3, and
  the slider left alone drops the record whose lot size is 3.5.
\<close>

theorem lot_filter_drops_fractional_maximum:
  "lot_bounds sample_runtime fractional_lots = Some (1, 3)
   \<and> lot_filter sample_runtime None fractional_lots = fractional_lots\<lparr>rows := [small_lot]\<rparr>
   \<and> to_numeric sample_runtime (cell large_lot ''lot_size'') = Some 3.5
   \<and> main_filters sample_runtime untouched fractional_lots =
       Inr (fractional_lots\<lparr>rows := [small_lot]\<rparr>)"
proof -
  have v: "numeric_values sample_runtime ''lot_size'' fractional_lots = [3 / 2, 7 / 2]"
    by (simp add: numeric_values_def column_def cell_def to_numeric_def fractional_lots_def
        small_lot_def large_lot_def)
  have b: "lot_bounds sample_runtime fractional_lots = Some (1, 3)"
    by (simp add: lot_bounds_def v py_int_def) (simp add: fractional_lots_def)
  have "filter (in_range sample_runtime ''lot_size'' 1 3) (rows fractional_lots) = [small_lot]"
    by (simp add: in_range_def cell_def to_numeric_def fractional_lots_def small_lot_def
        large_lot_def)
  then have f: "lot_filter sample_runtime None fractional_lots =
      fractional_lots\<lparr>rows := [small_lot]\<rparr>"
    by (simp add: lot_filter_def b select_rows_def)
  have n: "to_numeric sample_runtime (cell large_lot ''lot_size'') = Some 3.5"
    by (simp add: cell_def to_numeric_def large_lot_def)
  have c: "columns fractional_lots = [''lot_size'']"
    by (simp add: fractional_lots_def)
  have m: "main_filters sample_runtime untouched fractional_lots =
       Inr (fractional_lots\<lparr>rows := [small_lot]\<rparr>)"
    by (simp add: main_filters_def untouched_def category_filter_All f c strike_filter_absent
        weekly_filter_all search_filter_empty)
  from b f n m show ?thesis by (intro conjI)
qed

section \<open>Table and download: claim C10\<close>

text \<open>
  \<^bold>\<open>C10\<close>. For every frame and every selection, the rows \<open>main\<close> is left with are rows of the
  frame, unchanged and in their order (a subsequence), under the same labels; the CSV
  download holds one record per such row, in order, with the row's own cells; the table
  holds one line per such row, in order, whose cells are the row's own but for the two
  formatted columns; table and download exist when a row is left.
\<close>

theorem filtered_view_order:
  assumes "main_filters L sel df = Inr df'"
  shows "subseq (rows df') (rows df) \<and> set (rows df') \<subseteq> set (rows df)
    \<and> columns df' = columns df
    \<and> to_csv df' = (columns df, map (\<lambda>r. map (cell r) (columns df)) (rows df'))
    \<and> table L df' =
        map (\<lambda>r. map (cell (display_row L (columns df) r)) (display_columns (display_df L df')))
          (rows df')
    \<and> (\<forall>r c. c \<noteq> ''expiry_date'' \<and> c \<noteq> ''strike_price_formatted'' \<longrightarrow>
          cell (display_row L (columns df) r) c = cell r c)
    \<and> main_results L df' = (if rows df' = [] then None else Some (table L df', to_csv df'))"
proof -
  from assms have r: "run_stages L sel sidebar_order df = Inr df'"
    by (simp add: main_filters_run)
  have c: "columns df' = columns df" using run_stages_narrows(1) [OF r] .
  obtain keep where k: "rows df' = filter keep (rows df)"
    using run_stages_narrows(2) [OF r] by blast
  have s: "subseq (rows df') (rows df)" by (simp add: k)
  have m: "set (rows df') \<subseteq> set (rows df)" using k by auto
  have t: "table L df' =
        map (\<lambda>r. map (cell (display_row L (columns df) r)) (display_columns (display_df L df')))
          (rows df')"
    using table_rows [of L df'] by (simp add: c)
  show ?thesis
    using s m c t by (simp add: to_csv_def display_row_raw main_results_def)
qed

text \<open>The theorem at the example frame, with the exchange on \<^verbatim>\<open>NSE\<close>.\<close>

theorem filtered_view_order_witness:
  "main_filters sample_runtime (untouched\<lparr>sel_exchange := ''NSE''\<rparr>) instruments =
     Inr (instruments\<lparr>rows := [nifty_fut, banknifty_fut]\<rparr>)
   \<and> subseq [nifty_fut, banknifty_fut] (rows instruments)
   \<and> snd (to_csv (instruments\<lparr>rows := [nifty_fut, banknifty_fut]\<rparr>)) =
       [map (cell nifty_fut) (columns instruments), map (cell banknifty_fut) (columns instruments)]"
  using filtered_view_order [OF instruments_NSE_only] instruments_NSE_only by simp

end
